theory Spec2Isabelle
  imports Main
begin

section \<open>The environment of the service\<close>

text \<open>
  The service is a NestJS application whose only logic is the database connection
  lifecycle (\<^verbatim>\<open>src/config/prisma.service.ts\<close>) and the health endpoints
  (\<^verbatim>\<open>src/health/health.service.ts\<close>, \<^verbatim>\<open>src/health/health.controller.ts\<close>).
  Everything these functions observe of the outside is collected in one record, the
  \<open>world\<close>: the wall clock read by \<^verbatim>\<open>Date.now()\<close>, the database client and
  the store behind it, the timer, the logger's output and the process environment.
  An \<^verbatim>\<open>async\<close> function is a function from the world to its outcome and the
  world after it; a rejected promise (a thrown value) is \<open>Inl\<close>.
\<close>

datatype error = Thrown string

text \<open>The three raw statements the source sends to the store.\<close>

datatype sql =
    SelectOne          \<comment> \<open>\<^verbatim>\<open>SELECT 1\<close>\<close>
  | CreateExtension    \<comment> \<open>\<^verbatim>\<open>CREATE EXTENSION IF NOT EXISTS timescaledb CASCADE;\<close>\<close>
  | CreateHypertable   \<comment> \<open>\<^verbatim>\<open>SELECT create_hypertable('market_data', 'time', if_not_exists => TRUE);\<close>\<close>

datatype level = LOG | WARN | ERROR

record world =
  now :: int
    \<comment> \<open>what \<^verbatim>\<open>Date.now()\<close> returns, in milliseconds\<close>
  connected :: bool
    \<comment> \<open>whether the client holds an established connection\<close>
  connect_error :: "error option"
    \<comment> \<open>the error \<^verbatim>\<open>$connect()\<close> rejects with, if it does\<close>
  disconnect_error :: "error option"
    \<comment> \<open>the error \<^verbatim>\<open>$disconnect()\<close> rejects with, if it does\<close>
  backend :: "sql list \<Rightarrow> sql \<Rightarrow> error option"
    \<comment> \<open>the store's answer to a statement, given the statements issued before it:
        \<open>None\<close> when it succeeds, the error it rejects with otherwise\<close>
  latency :: "sql list \<Rightarrow> sql \<Rightarrow> int"
    \<comment> \<open>by how many milliseconds the reading of the clock changes during that round
        trip: negative when the wall clock is stepped back meanwhile\<close>
  issued :: "sql list"
    \<comment> \<open>the statements sent to the store so far, oldest first\<close>
  timer_elapsed :: "nat \<Rightarrow> int"
    \<comment> \<open>by how many milliseconds the reading of the clock changes while a timer of the
        given delay is awaited: the delay or more as a rule, less when the timer fires
        within a coarser clock tick, negative when the wall clock is stepped back\<close>
  redis_reachable :: bool
    \<comment> \<open>whether the Redis server of the deployment answers\<close>
  logged :: "(level \<times> string \<times> error option) list"
    \<comment> \<open>the logger's output, oldest first\<close>
  process_env :: "string \<Rightarrow> string option"
    \<comment> \<open>\<^verbatim>\<open>process.env\<close>\<close>

type_synonym 'a async = "world \<Rightarrow> (error + 'a) \<times> world"

definition resolve :: "'a \<Rightarrow> 'a async" where
  "resolve v w = (Inr v, w)"

definition reject :: "error \<Rightarrow> 'a async" where
  "reject e w = (Inl e, w)"

text \<open>\<^verbatim>\<open>const v = await m; f(v)\<close>: a rejection of \<open>m\<close> skips \<open>f\<close>.\<close>

definition await :: "'a async \<Rightarrow> ('a \<Rightarrow> 'b async) \<Rightarrow> 'b async" where
  "await m f w = (case m w of (Inl e, w') \<Rightarrow> (Inl e, w') | (Inr v, w') \<Rightarrow> f v w')"

text \<open>\<^verbatim>\<open>await m; n\<close>, the value of \<open>m\<close> unused.\<close>

definition seq :: "'a async \<Rightarrow> 'b async \<Rightarrow> 'b async" where
  "seq m n = await m (\<lambda>_. n)"

text \<open>\<^verbatim>\<open>try { m } catch (e) { h(e) }\<close>\<close>

definition try_catch :: "'a async \<Rightarrow> (error \<Rightarrow> 'a async) \<Rightarrow> 'a async" where
  "try_catch m h w = (case m w of (Inl e, w') \<Rightarrow> h e w' | (Inr v, w') \<Rightarrow> (Inr v, w'))"

subsection \<open>The logger, the client and the timer\<close>

definition logger_log :: "string \<Rightarrow> unit async" where
  "logger_log msg w = (Inr (), w\<lparr>logged := logged w @ [(LOG, msg, None)]\<rparr>)"

definition logger_warn :: "string \<Rightarrow> error \<Rightarrow> unit async" where
  "logger_warn msg e w = (Inr (), w\<lparr>logged := logged w @ [(WARN, msg, Some e)]\<rparr>)"

definition logger_error :: "string \<Rightarrow> error \<Rightarrow> unit async" where
  "logger_error msg e w = (Inr (), w\<lparr>logged := logged w @ [(ERROR, msg, Some e)]\<rparr>)"

text \<open>
  \<^verbatim>\<open>$connect()\<close> and \<^verbatim>\<open>$disconnect()\<close> of the Prisma client. A failed call
  leaves the connection as it was.
\<close>

definition connect :: "unit async" where
  "connect w =
     (case connect_error w of
        Some e \<Rightarrow> (Inl e, w)
      | None \<Rightarrow> (Inr (), w\<lparr>connected := True\<rparr>))"

definition disconnect :: "unit async" where
  "disconnect w =
     (case disconnect_error w of
        Some e \<Rightarrow> (Inl e, w)
      | None \<Rightarrow> (Inr (), w\<lparr>connected := False\<rparr>))"

text \<open>
  One round trip to the store, \<^verbatim>\<open>$queryRaw\<close> or \<^verbatim>\<open>$executeRaw\<close>. The source
  never reads the rows or the row count a statement returns, so the outcome is
  \<open>unit\<close> or the error.
\<close>

definition round_trip :: "sql \<Rightarrow> unit async" where
  "round_trip q w =
     (let w' = w\<lparr>now := now w + latency w (issued w) q,
                 issued := issued w @ [q]\<rparr>
      in case backend w (issued w) q of
           Some e \<Rightarrow> (Inl e, w')
         | None \<Rightarrow> (Inr (), w'))"

definition queryRaw :: "sql \<Rightarrow> unit async" where
  "queryRaw q = round_trip q"

definition executeRaw :: "sql \<Rightarrow> unit async" where
  "executeRaw q = round_trip q"

text \<open>
  \<^verbatim>\<open>new Promise(resolve => setTimeout(resolve, d))\<close>: the promise never
  rejects. What \<^verbatim>\<open>Date.now()\<close> reads once it has resolved is the world's to say;
  nothing in the source bounds it.
\<close>

definition setTimeout_promise :: "nat \<Rightarrow> unit async" where
  "setTimeout_promise d w = (Inr (), w\<lparr>now := now w + timer_elapsed w d\<rparr>)"

section \<open>PrismaService\<close>

text \<open>The log messages are the source's, without their leading pictographs.\<close>

definition enableTimescaleDB :: "unit async" where
  "enableTimescaleDB =
     try_catch
       (seq (executeRaw CreateExtension)
            (logger_log ''TimescaleDB extension enabled''))
       (\<lambda>error. logger_warn ''TimescaleDB extension may already be enabled'' error)"

definition createMarketDataHypertable :: "unit async" where
  "createMarketDataHypertable =
     try_catch
       (seq (executeRaw CreateHypertable)
            (logger_log ''market_data hypertable created/verified''))
       (\<lambda>error. logger_warn ''Hypertable may already exist or TimescaleDB not available'' error)"

definition initializeTimescaleDB :: "unit async" where
  "initializeTimescaleDB =
     try_catch
       (seq enableTimescaleDB createMarketDataHypertable)
       (\<lambda>error. logger_warn
          ''TimescaleDB initialization warning (may already be configured)'' error)"

definition onModuleInit :: "unit async" where
  "onModuleInit =
     try_catch
       (seq connect
         (seq (logger_log ''Database connected successfully'')
              initializeTimescaleDB))
       (\<lambda>error. seq (logger_error ''Failed to connect to database'' error)
                     (reject error))"

definition onModuleDestroy :: "unit async" where
  "onModuleDestroy =
     try_catch
       (seq disconnect (logger_log ''Database disconnected''))
       (\<lambda>error. logger_error ''Error disconnecting from database'' error)"

definition isHealthy :: "bool async" where
  "isHealthy =
     try_catch
       (seq (queryRaw SelectOne) (resolve True))
       (\<lambda>_. resolve False)"

section \<open>HealthService\<close>

text \<open>
  The response objects. Their \<^verbatim>\<open>status\<close> fields are the source's string
  literals. A timestamp is the clock reading that \<^verbatim>\<open>new Date().toISOString()\<close>
  prints. The \<^verbatim>\<open>memory\<close> field of the health response, three floating-point
  figures of \<^verbatim>\<open>process.memoryUsage()\<close> that nothing else reads, is left out.
  An object literal is the list of its entries in the order it is written, which is
  the order \<^verbatim>\<open>Object.values\<close> returns them in.
\<close>

record HealthCheckDto =
  status :: string
  responseTime :: int
  details :: "string option"

record HealthResponseDto =
  status :: string
  timestamp :: int
  uptime :: int
  checks :: "(string \<times> HealthCheckDto) list"
  version :: string
  environment :: string

record ReadinessDto =
  status :: string
  timestamp :: int
  dependencies :: "(string \<times> bool) list"

record LiveDto =
  status :: string
  timestamp :: int

definition Object_values :: "(string \<times> 'a) list \<Rightarrow> 'a list" where
  "Object_values obj = map snd obj"

text \<open>
  The service object: the clock reading taken when it was constructed, and the
  \<^verbatim>\<open>isHealthy\<close> method of the \<^verbatim>\<open>PrismaService\<close> injected into it.
\<close>

record HealthService =
  startTime :: int
  prismaService_isHealthy :: "bool async"

definition checkDatabase :: "HealthService \<Rightarrow> int async" where
  "checkDatabase this w0 =
     (let start = now w0 in
      try_catch
        (await (prismaService_isHealthy this)
           (\<lambda>isHealthy w. (Inr (if isHealthy then now w - start else - 1), w)))
        (\<lambda>_. resolve (- 1))
        w0)"

text \<open>
  \<open>checkRedis\<close> awaits a five millisecond timer where a Redis ping is to come.
  \<open>checkRedis_awaiting\<close> is its body with the awaited promise left open, so that
  the \<^verbatim>\<open>catch\<close> branch can be followed too.
\<close>

definition checkRedis_awaiting :: "unit async \<Rightarrow> int async" where
  "checkRedis_awaiting ping w0 =
     (let start = now w0 in
      try_catch
        (await ping (\<lambda>_ w. (Inr (now w - start), w)))
        (\<lambda>_. resolve (- 1))
        w0)"

definition checkRedis :: "int async" where
  "checkRedis = checkRedis_awaiting (setTimeout_promise 5)"

definition isDatabaseHealthy :: "HealthService \<Rightarrow> bool async" where
  "isDatabaseHealthy this =
     try_catch
       (await (checkDatabase this) (\<lambda>responseTime. resolve (responseTime > 0)))
       (\<lambda>_. resolve False)"

definition isRedisHealthy :: "bool async" where
  "isRedisHealthy =
     try_catch
       (await checkRedis (\<lambda>responseTime. resolve (responseTime > 0)))
       (\<lambda>_. resolve False)"

definition check :: "HealthService \<Rightarrow> HealthResponseDto async" where
  "check this w0 =
     (let uptime = (now w0 - startTime this) div 1000 in
      await (checkDatabase this) (\<lambda>database_responseTime.
      await checkRedis (\<lambda>redis_responseTime w.
        let checks =
              [(''database'',
                  \<lparr>HealthCheckDto.status = ''up'',
                   responseTime = database_responseTime,
                   details = Some ''Connected successfully''\<rparr>),
               (''redis'',
                  \<lparr>HealthCheckDto.status = ''up'',
                   responseTime = redis_responseTime,
                   details = Some ''Connected successfully''\<rparr>)];
            allHealthy =
              list_all (\<lambda>check. HealthCheckDto.status check = ''up'') (Object_values checks)
        in (Inr \<lparr>HealthResponseDto.status = (if allHealthy then ''ok'' else ''error''),
                 timestamp = now w,
                 uptime = uptime,
                 checks = checks,
                 version =
                   (case process_env w ''npm_package_version'' of
                      Some v \<Rightarrow> v | None \<Rightarrow> ''1.0.0''),
                 environment =
                   (case process_env w ''NODE_ENV'' of
                      Some v \<Rightarrow> v | None \<Rightarrow> ''development'')\<rparr>,
            w)))
      w0)"

definition readiness :: "HealthService \<Rightarrow> ReadinessDto async" where
  "readiness this =
     await (isDatabaseHealthy this) (\<lambda>databaseHealthy.
     await isRedisHealthy (\<lambda>redisHealthy w.
       let dependencies = [(''database'', databaseHealthy), (''redis'', redisHealthy)];
           allReady = list_all (\<lambda>b. b) (Object_values dependencies)
       in (Inr \<lparr>ReadinessDto.status = (if allReady then ''ready'' else ''not-ready''),
                timestamp = now w,
                dependencies = dependencies\<rparr>,
           w)))"

section \<open>HealthController\<close>

definition controller_check :: "HealthService \<Rightarrow> HealthResponseDto async" where
  "controller_check healthService = await (check healthService) resolve"

text \<open>\<open>live\<close> is not \<^verbatim>\<open>async\<close>: it returns its object and the world as it found it.\<close>

definition controller_live :: "world \<Rightarrow> LiveDto \<times> world" where
  "controller_live w = (\<lparr>LiveDto.status = ''ok'', timestamp = now w\<rparr>, w)"

definition controller_ready :: "HealthService \<Rightarrow> ReadinessDto async" where
  "controller_ready healthService = await (readiness healthService) resolve"

text \<open>
  The handlers carry no \<^verbatim>\<open>@HttpCode\<close>, take no response object and throw no
  \<^verbatim>\<open>HttpException\<close>, and \<^verbatim>\<open>main.ts\<close> installs no filter or interceptor. The
  framework then answers a \<^verbatim>\<open>GET\<close> handler that returns its body with status
  200, and one that throws with status 500.
\<close>

definition http_status :: "error + 'a \<Rightarrow> nat" where
  "http_status outcome = (case outcome of Inr _ \<Rightarrow> 200 | Inl _ \<Rightarrow> 500)"

section \<open>Example worlds\<close>

text \<open>
  A store with the time-series extension that answers every statement in three
  milliseconds; a plain relational store, which rejects the two bootstrap
  statements; and a store that cannot be reached at all.
\<close>

definition timescale_world :: world where
  "timescale_world =
     \<lparr>now = 1700000000000, connected = False, connect_error = None,
      disconnect_error = None, backend = (\<lambda>_ _. None), latency = (\<lambda>_ _. 3),
      issued = [], timer_elapsed = (\<lambda>d. int d + 1), redis_reachable = True,
      logged = [], process_env = (\<lambda>_. None)\<rparr>"

definition plain_postgres_world :: world where
  "plain_postgres_world =
     timescale_world
       \<lparr>backend := (\<lambda>_ q. if q = SelectOne then None
                           else Some (Thrown ''extension timescaledb is not available''))\<rparr>"

definition database_down_world :: world where
  "database_down_world =
     timescale_world
       \<lparr>connect_error := Some (Thrown ''ECONNREFUSED''),
        backend := (\<lambda>_ _. Some (Thrown ''ECONNREFUSED''))\<rparr>"

text \<open>The first store again, answering within the same millisecond.\<close>

definition instant_world :: world where
  "instant_world = timescale_world\<lparr>latency := (\<lambda>_ _. 0)\<rparr>"

text \<open>
  The first store once more, with the wall clock set back by ten milliseconds while
  the timer runs, and with no Redis server answering.
\<close>

definition stepped_back_world :: world where
  "stepped_back_world =
     timescale_world\<lparr>timer_elapsed := (\<lambda>d. int d - 10), redis_reachable := False\<rparr>"

text \<open>
  The health service as \<^verbatim>\<open>HealthModule\<close> wires it, constructed one second
  before the worlds above, and one whose injected service throws.
\<close>

definition healthService :: HealthService where
  "healthService =
     \<lparr>startTime = 1699999999000, prismaService_isHealthy = isHealthy\<rparr>"

definition throwing_healthService :: HealthService where
  "throwing_healthService =
     \<lparr>startTime = 1699999999000,
      prismaService_isHealthy = reject (Thrown ''client not initialised'')\<rparr>"

lemmas async_defs = resolve_def reject_def await_def seq_def try_catch_def

lemmas logger_defs = logger_log_def logger_warn_def logger_error_def

lemmas client_defs = connect_def disconnect_def queryRaw_def executeRaw_def
  round_trip_def setTimeout_promise_def

section \<open>What each function computes\<close>

subsection \<open>PrismaService\<close>

lemma enableTimescaleDB_run:
  "enableTimescaleDB w =
     (Inr (),
      w\<lparr>now := now w + latency w (issued w) CreateExtension,
        issued := issued w @ [CreateExtension],
        logged := logged w @
          [case backend w (issued w) CreateExtension of
             None \<Rightarrow> (LOG, ''TimescaleDB extension enabled'', None)
           | Some e \<Rightarrow> (WARN, ''TimescaleDB extension may already be enabled'', Some e)]\<rparr>)"
  by (cases "backend w (issued w) CreateExtension")
     (simp_all add: enableTimescaleDB_def async_defs logger_defs client_defs)

lemma createMarketDataHypertable_run:
  "createMarketDataHypertable w =
     (Inr (),
      w\<lparr>now := now w + latency w (issued w) CreateHypertable,
        issued := issued w @ [CreateHypertable],
        logged := logged w @
          [case backend w (issued w) CreateHypertable of
             None \<Rightarrow> (LOG, ''market_data hypertable created/verified'', None)
           | Some e \<Rightarrow>
               (WARN, ''Hypertable may already exist or TimescaleDB not available'', Some e)]\<rparr>)"
  by (cases "backend w (issued w) CreateHypertable")
     (simp_all add: createMarketDataHypertable_def async_defs logger_defs client_defs)

text \<open>Neither step throws, so the outer \<^verbatim>\<open>catch\<close> of the bootstrap is never entered.\<close>

lemma initializeTimescaleDB_run:
  "initializeTimescaleDB w = createMarketDataHypertable (snd (enableTimescaleDB w))"
  by (simp add: initializeTimescaleDB_def async_defs enableTimescaleDB_run
      createMarketDataHypertable_run)

lemma initializeTimescaleDB_result:
  "fst (initializeTimescaleDB w) = Inr ()"
  by (simp add: initializeTimescaleDB_run createMarketDataHypertable_run)

lemma initializeTimescaleDB_connected:
  "connected (snd (initializeTimescaleDB w)) = connected w"
  by (simp add: initializeTimescaleDB_run createMarketDataHypertable_run
      enableTimescaleDB_run)

lemma initializeTimescaleDB_issued:
  "issued (snd (initializeTimescaleDB w)) = issued w @ [CreateExtension, CreateHypertable]"
  by (simp add: initializeTimescaleDB_run createMarketDataHypertable_run
      enableTimescaleDB_run)

lemma initializeTimescaleDB_logged:
  "logged (snd (initializeTimescaleDB w)) = logged w @
     [case backend w (issued w) CreateExtension of
        None \<Rightarrow> (LOG, ''TimescaleDB extension enabled'', None)
      | Some e \<Rightarrow> (WARN, ''TimescaleDB extension may already be enabled'', Some e),
      case backend w (issued w @ [CreateExtension]) CreateHypertable of
        None \<Rightarrow> (LOG, ''market_data hypertable created/verified'', None)
      | Some e \<Rightarrow>
          (WARN, ''Hypertable may already exist or TimescaleDB not available'', Some e)]"
  by (simp add: initializeTimescaleDB_run createMarketDataHypertable_run
      enableTimescaleDB_run)

lemma onModuleInit_run:
  "onModuleInit w =
     (case connect_error w of
        Some e \<Rightarrow>
          (Inl e,
           w\<lparr>logged := logged w @ [(ERROR, ''Failed to connect to database'', Some e)]\<rparr>)
      | None \<Rightarrow>
          initializeTimescaleDB
            (w\<lparr>connected := True,
               logged := logged w @ [(LOG, ''Database connected successfully'', None)]\<rparr>))"
proof (cases "connect_error w")
  case None
  then show ?thesis
    by (simp add: onModuleInit_def async_defs logger_defs connect_def
        initializeTimescaleDB_run createMarketDataHypertable_run)
next
  case (Some e)
  then show ?thesis
    by (simp add: onModuleInit_def async_defs logger_defs connect_def)
qed

lemma onModuleDestroy_result:
  "fst (onModuleDestroy w) = Inr ()"
  by (cases "disconnect_error w")
     (simp_all add: onModuleDestroy_def async_defs logger_defs disconnect_def)

lemma isHealthy_run:
  "isHealthy w =
     (Inr (backend w (issued w) SelectOne = None),
      w\<lparr>now := now w + latency w (issued w) SelectOne,
        issued := issued w @ [SelectOne]\<rparr>)"
  by (cases "backend w (issued w) SelectOne")
     (simp_all add: isHealthy_def async_defs client_defs)

subsection \<open>The probes\<close>

lemma checkDatabase_run:
  "checkDatabase this w =
     (case prismaService_isHealthy this w of
        (Inr healthy, w') \<Rightarrow> (Inr (if healthy then now w' - now w else - 1), w')
      | (Inl e, w') \<Rightarrow> (Inr (- 1), w'))"
  by (simp add: checkDatabase_def async_defs split: prod.splits sum.splits)

lemma checkDatabase_total:
  "\<exists>t. fst (checkDatabase this w) = Inr t"
  by (simp add: checkDatabase_run split: prod.splits sum.splits)

lemma checkDatabase_cases:
  obtains t w1 where "checkDatabase this w = (Inr t, w1)"
proof -
  obtain t where "fst (checkDatabase this w) = Inr t"
    using checkDatabase_total by blast
  then have "checkDatabase this w = (Inr t, snd (checkDatabase this w))"
    by (simp add: prod_eq_iff)
  then show thesis ..
qed

text \<open>
  A probe whose underlying check throws, or answers \<open>False\<close>, returns the
  sentinel \<open>- 1\<close> and throws nothing.
\<close>

lemma checkDatabase_raises:
  "fst (prismaService_isHealthy this w) = Inl e \<Longrightarrow> fst (checkDatabase this w) = Inr (- 1)"
  by (auto simp: checkDatabase_run split: prod.splits sum.splits)

lemma checkDatabase_unhealthy:
  "fst (prismaService_isHealthy this w) = Inr False \<Longrightarrow> fst (checkDatabase this w) = Inr (- 1)"
  by (auto simp: checkDatabase_run split: prod.splits sum.splits)

lemma checkRedis_awaiting_run:
  "checkRedis_awaiting ping w =
     (case ping w of
        (Inr _, w') \<Rightarrow> (Inr (now w' - now w), w')
      | (Inl e, w') \<Rightarrow> (Inr (- 1), w'))"
  by (simp add: checkRedis_awaiting_def async_defs split: prod.splits sum.splits)

lemma checkRedis_awaiting_raises:
  "fst (ping w) = Inl e \<Longrightarrow> fst (checkRedis_awaiting ping w) = Inr (- 1)"
  by (auto simp: checkRedis_awaiting_run split: prod.splits sum.splits)

lemma checkRedis_run:
  "checkRedis w =
     (Inr (timer_elapsed w 5), w\<lparr>now := now w + timer_elapsed w 5\<rparr>)"
  by (simp add: checkRedis_def checkRedis_awaiting_run setTimeout_promise_def)

lemma isDatabaseHealthy_run:
  "checkDatabase this w = (Inr t, w1) \<Longrightarrow> isDatabaseHealthy this w = (Inr (0 < t), w1)"
  by (simp add: isDatabaseHealthy_def async_defs)

lemma isDatabaseHealthy_raises:
  "fst (prismaService_isHealthy this w) = Inl e \<Longrightarrow> fst (isDatabaseHealthy this w) = Inr False"
proof -
  assume raises: "fst (prismaService_isHealthy this w) = Inl e"
  obtain t w1 where run: "checkDatabase this w = (Inr t, w1)"
    by (rule checkDatabase_cases)
  with checkDatabase_raises [OF raises] have "t = - 1"
    by simp
  with isDatabaseHealthy_run [OF run] show ?thesis
    by simp
qed

lemma isRedisHealthy_run:
  "isRedisHealthy w = (Inr (0 < timer_elapsed w 5), w\<lparr>now := now w + timer_elapsed w 5\<rparr>)"
  by (simp add: isRedisHealthy_def async_defs checkRedis_run)

subsection \<open>The two aggregates\<close>

text \<open>
  Every entry of \<open>checks\<close> is built with the constant status \<^verbatim>\<open>'up'\<close>, so
  \<open>allHealthy\<close> is true and the overall status is \<^verbatim>\<open>'ok'\<close> whatever the probes
  returned.
\<close>

lemma check_run:
  assumes "checkDatabase this w = (Inr t, w1)"
  shows "check this w =
     (Inr \<lparr>HealthResponseDto.status = ''ok'',
           timestamp = now w1 + timer_elapsed w1 5,
           uptime = (now w - startTime this) div 1000,
           checks =
             [(''database'',
                 \<lparr>HealthCheckDto.status = ''up'', responseTime = t,
                  details = Some ''Connected successfully''\<rparr>),
              (''redis'',
                 \<lparr>HealthCheckDto.status = ''up'', responseTime = timer_elapsed w1 5,
                  details = Some ''Connected successfully''\<rparr>)],
           version =
             (case process_env w1 ''npm_package_version'' of
                Some v \<Rightarrow> v | None \<Rightarrow> ''1.0.0''),
           environment =
             (case process_env w1 ''NODE_ENV'' of
                Some v \<Rightarrow> v | None \<Rightarrow> ''development'')\<rparr>,
      w1\<lparr>now := now w1 + timer_elapsed w1 5\<rparr>)"
  by (simp add: check_def async_defs assms checkRedis_run Object_values_def Let_def)

lemma readiness_run:
  assumes "checkDatabase this w = (Inr t, w1)"
  shows "readiness this w =
     (Inr \<lparr>ReadinessDto.status =
             (if 0 < t \<and> 0 < timer_elapsed w1 5 then ''ready'' else ''not-ready''),
           timestamp = now w1 + timer_elapsed w1 5,
           dependencies = [(''database'', 0 < t), (''redis'', 0 < timer_elapsed w1 5)]\<rparr>,
      w1\<lparr>now := now w1 + timer_elapsed w1 5\<rparr>)"
  by (simp add: readiness_def async_defs isDatabaseHealthy_run [OF assms]
      isRedisHealthy_run Object_values_def Let_def)

lemma check_never_throws:
  "\<exists>r. fst (check this w) = Inr r"
proof -
  obtain t w1 where "checkDatabase this w = (Inr t, w1)"
    by (rule checkDatabase_cases)
  then show ?thesis
    by (simp add: check_run)
qed

lemma readiness_never_throws:
  "\<exists>r. fst (readiness this w) = Inr r"
proof -
  obtain t w1 where "checkDatabase this w = (Inr t, w1)"
    by (rule checkDatabase_cases)
  then show ?thesis
    by (simp add: readiness_run)
qed

subsection \<open>The handlers\<close>

lemma controller_check_run: "controller_check this w = check this w"
  by (simp add: controller_check_def async_defs split: prod.splits sum.splits)

lemma controller_ready_run: "controller_ready this w = readiness this w"
  by (simp add: controller_ready_def async_defs split: prod.splits sum.splits)

text \<open>Neither handler throws, so neither is ever answered with status 500.\<close>

lemma handlers_always_answer_200:
  "http_status (fst (controller_check this w)) = 200
   \<and> http_status (fst (controller_ready this w)) = 200"
  using check_never_throws [of this w] readiness_never_throws [of this w]
  by (auto simp: controller_check_run controller_ready_run http_status_def)

subsection \<open>The database probe in the example worlds\<close>

lemma checkDatabase_timescale:
  "checkDatabase healthService timescale_world =
     (Inr 3, timescale_world\<lparr>now := 1700000000003, issued := [SelectOne]\<rparr>)"
  unfolding checkDatabase_run
  by (simp add: healthService_def isHealthy_run timescale_world_def)

lemma checkDatabase_database_down:
  "checkDatabase healthService database_down_world =
     (Inr (- 1), database_down_world\<lparr>now := 1700000000003, issued := [SelectOne]\<rparr>)"
  unfolding checkDatabase_run
  by (simp add: healthService_def isHealthy_run database_down_world_def timescale_world_def)

lemma checkDatabase_stepped_back:
  "checkDatabase healthService stepped_back_world =
     (Inr 3, stepped_back_world\<lparr>now := 1700000000003, issued := [SelectOne]\<rparr>)"
  unfolding checkDatabase_run
  by (simp add: healthService_def isHealthy_run stepped_back_world_def timescale_world_def)

lemma checkDatabase_throwing:
  "checkDatabase throwing_healthService timescale_world = (Inr (- 1), timescale_world)"
  unfolding checkDatabase_run
  by (simp add: throwing_healthService_def reject_def)

section \<open>The claims\<close>

text \<open>
  Claim C1. When the database cannot be reached, \<open>check\<close> is to return a snapshot
  with status \<^verbatim>\<open>'error'\<close> whose database entry has status \<^verbatim>\<open>'down'\<close> and
  response time \<open>- 1\<close>, and \<open>readiness\<close> is to return \<^verbatim>\<open>'not-ready'\<close> with the
  database dependency false.

  Evaluated in the world whose store rejects every statement: \<open>readiness\<close> answers
  as claimed and the database entry of \<open>check\<close> carries the response time \<open>- 1\<close>,
  but that entry's status is \<^verbatim>\<open>'up'\<close> and the overall status is \<^verbatim>\<open>'ok'\<close>. The
  source writes \<^verbatim>\<open>status: 'up' as const\<close> into both entries before it tests
  \<^verbatim>\<open>check.status === 'up'\<close>.
\<close>

theorem C1_database_down_is_reported_ok:
  "fst (check healthService database_down_world) =
     Inr \<lparr>HealthResponseDto.status = ''ok'',
          timestamp = 1700000000009,
          uptime = 1,
          checks =
            [(''database'',
                \<lparr>HealthCheckDto.status = ''up'', responseTime = - 1,
                 details = Some ''Connected successfully''\<rparr>),
             (''redis'',
                \<lparr>HealthCheckDto.status = ''up'', responseTime = 6,
                 details = Some ''Connected successfully''\<rparr>)],
          version = ''1.0.0'',
          environment = ''development''\<rparr>
   \<and> fst (readiness healthService database_down_world) =
     Inr \<lparr>ReadinessDto.status = ''not-ready'',
          timestamp = 1700000000009,
          dependencies = [(''database'', False), (''redis'', True)]\<rparr>"
  unfolding check_run [OF checkDatabase_database_down]
    readiness_run [OF checkDatabase_database_down]
  by (simp add: healthService_def database_down_world_def timescale_world_def)

text \<open>
  Claim C2. In every state of the dependencies the two views are to agree: a name has
  status \<^verbatim>\<open>'up'\<close> in the \<open>checks\<close> of \<open>check\<close> exactly when it is true in the
  \<open>dependencies\<close> of \<open>readiness\<close>.

  Evaluated in the world whose store rejects every statement: \<open>check\<close> reports the
  database \<^verbatim>\<open>'up'\<close> while \<open>readiness\<close> reports it false.
\<close>

theorem C2_views_disagree_when_database_down:
  "\<exists>r d. fst (check healthService database_down_world) = Inr r
     \<and> fst (readiness healthService database_down_world) = Inr d
     \<and> map_option HealthCheckDto.status (map_of (checks r) ''database'') = Some ''up''
     \<and> map_of (dependencies d) ''database'' = Some False"
  unfolding check_run [OF checkDatabase_database_down]
    readiness_run [OF checkDatabase_database_down]
  by (simp add: database_down_world_def timescale_world_def)

text \<open>
  Claim C3. A probe whose underlying check throws is still to yield a well-formed
  result that is unhealthy (status \<^verbatim>\<open>'down'\<close>) with response time \<open>- 1\<close>, and
  nothing is to be thrown to the caller of \<open>check\<close> or \<open>readiness\<close>.

  Evaluated where the round-trip query throws (the store rejects every statement) and
  where the injected \<^verbatim>\<open>isHealthy\<close> itself throws: the probe returns \<open>- 1\<close> and
  \<open>check\<close> returns normally, but the entry it builds for the database has status
  \<^verbatim>\<open>'up'\<close>. That the sentinel and the containment hold in general is
  \<open>checkDatabase_raises\<close>, \<open>checkRedis_awaiting_raises\<close>, \<open>isDatabaseHealthy_raises\<close>,
  \<open>check_never_throws\<close> and \<open>readiness_never_throws\<close> above.
\<close>

theorem C3_failed_probe_is_reported_up:
  "fst (queryRaw SelectOne database_down_world) = Inl (Thrown ''ECONNREFUSED'')
   \<and> fst (checkDatabase healthService database_down_world) = Inr (- 1)
   \<and> (\<exists>r. fst (check healthService database_down_world) = Inr r
        \<and> map_of (checks r) ''database'' =
            Some \<lparr>HealthCheckDto.status = ''up'', responseTime = - 1,
                  details = Some ''Connected successfully''\<rparr>)
   \<and> fst (prismaService_isHealthy throwing_healthService timescale_world) =
       Inl (Thrown ''client not initialised'')
   \<and> (\<exists>r. fst (check throwing_healthService timescale_world) = Inr r
        \<and> map_of (checks r) ''database'' =
            Some \<lparr>HealthCheckDto.status = ''up'', responseTime = - 1,
                  details = Some ''Connected successfully''\<rparr>)"
  unfolding check_run [OF checkDatabase_database_down]
    check_run [OF checkDatabase_throwing] checkDatabase_database_down
  by (simp add: client_defs database_down_world_def timescale_world_def
      throwing_healthService_def reject_def)

text \<open>
  Claim C4. Whatever the probes return, the snapshot of \<open>check\<close> has status
  \<^verbatim>\<open>'ok'\<close> if and only if every entry of its \<open>checks\<close> has status \<^verbatim>\<open>'up'\<close>,
  and the snapshot of \<open>readiness\<close> has status \<^verbatim>\<open>'ready'\<close> if and only if every
  boolean of its \<open>dependencies\<close> is true. Both calls return; neither throws.
\<close>

theorem C4_overall_status_iff_all_entries:
  "(\<exists>r. fst (check this w) = Inr r
      \<and> (HealthResponseDto.status r = ''ok'') =
          (\<forall>c \<in> set (Object_values (checks r)). HealthCheckDto.status c = ''up''))
   \<and> (\<exists>d. fst (readiness this w) = Inr d
      \<and> (ReadinessDto.status d = ''ready'') =
          (\<forall>b \<in> set (Object_values (dependencies d)). b))"
proof -
  obtain t w1 where run: "checkDatabase this w = (Inr t, w1)"
    by (rule checkDatabase_cases)
  show ?thesis
    unfolding check_run [OF run] readiness_run [OF run]
    by (simp add: Object_values_def)
qed

theorem C4_witness:
  "(\<exists>r. fst (check healthService timescale_world) = Inr r
      \<and> HealthResponseDto.status r = ''ok''
      \<and> map (HealthCheckDto.status \<circ> snd) (checks r) = [''up'', ''up''])
   \<and> (\<exists>d. fst (readiness healthService database_down_world) = Inr d
      \<and> ReadinessDto.status d = ''not-ready''
      \<and> dependencies d = [(''database'', False), (''redis'', True)])"
  using C4_overall_status_iff_all_entries [of healthService timescale_world]
    C4_overall_status_iff_all_entries [of healthService database_down_world]
  unfolding readiness_run [OF checkDatabase_database_down]
    check_run [OF checkDatabase_timescale]
  by (simp add: database_down_world_def timescale_world_def)

text \<open>
  Claim C5. \<^verbatim>\<open>GET /health\<close> is to be answered with 200 when the body's status is
  \<^verbatim>\<open>'ok'\<close> and with 503 when it is \<^verbatim>\<open>'error'\<close>, \<^verbatim>\<open>GET /health/ready\<close> with 200
  when \<^verbatim>\<open>'ready'\<close> and with 503 when \<^verbatim>\<open>'not-ready'\<close>, and neither with 500
  because a dependency is unavailable.

  Evaluated in the world whose store rejects every statement: the \<open>ready\<close> handler
  returns the body with status \<^verbatim>\<open>'not-ready'\<close> as an ordinary return value, which
  is answered with 200. That neither handler is ever answered with 500 is
  \<open>handlers_always_answer_200\<close> above.
\<close>

theorem C5_not_ready_is_answered_200:
  "http_status (fst (controller_ready healthService database_down_world)) = 200
   \<and> (\<exists>d. fst (controller_ready healthService database_down_world) = Inr d
        \<and> ReadinessDto.status d = ''not-ready'')"
  unfolding controller_ready_run readiness_run [OF checkDatabase_database_down]
  by (simp add: http_status_def database_down_world_def timescale_world_def)

text \<open>
  Claim C6. In every state of the dependencies, \<open>live\<close> runs no probe (it leaves
  the world, and with it the list of statements sent to the store, as it found it)
  and returns status \<^verbatim>\<open>'ok'\<close> with the current clock reading; so two calls in any
  two worlds, one with the database up and one with it down, return the same status.
\<close>

theorem C6_live_ignores_dependencies:
  "fst (controller_live w) = \<lparr>LiveDto.status = ''ok'', timestamp = now w\<rparr>
   \<and> snd (controller_live w) = w
   \<and> LiveDto.status (fst (controller_live w)) = LiveDto.status (fst (controller_live w'))"
  by (simp add: controller_live_def)

text \<open>
  Claim C7. The bootstrap sends the statement that enables the time-series extension
  strictly before the one that creates the hypertable, and sends both whatever the
  store answers. A step the store rejects leaves a warning in the log and nothing is
  thrown. Running the bootstrap a second time, on the world the first run left, throws
  nothing either, and a connection that was established stays established.
\<close>

theorem C7_bootstrap_ordered_and_contained:
  "(let r1 = initializeTimescaleDB w; w1 = snd r1;
        r2 = initializeTimescaleDB w1; w2 = snd r2;
        e1 = backend w (issued w) CreateExtension;
        e2 = backend w (issued w @ [CreateExtension]) CreateHypertable
    in fst r1 = Inr ()
     \<and> issued w1 = issued w @ [CreateExtension, CreateHypertable]
     \<and> logged w1 = logged w @
          [case e1 of
             None \<Rightarrow> (LOG, ''TimescaleDB extension enabled'', None)
           | Some e \<Rightarrow> (WARN, ''TimescaleDB extension may already be enabled'', Some e),
           case e2 of
             None \<Rightarrow> (LOG, ''market_data hypertable created/verified'', None)
           | Some e \<Rightarrow>
               (WARN, ''Hypertable may already exist or TimescaleDB not available'', Some e)]
     \<and> connected w1 = connected w
     \<and> fst r2 = Inr ()
     \<and> (connected w \<longrightarrow> connected w2))"
  unfolding Let_def
  using initializeTimescaleDB_result initializeTimescaleDB_connected
    initializeTimescaleDB_issued initializeTimescaleDB_logged
  by presburger

theorem C7_witness:
  "connected (plain_postgres_world\<lparr>connected := True\<rparr>)
   \<and> fst (initializeTimescaleDB (plain_postgres_world\<lparr>connected := True\<rparr>)) = Inr ()
   \<and> issued (snd (initializeTimescaleDB (plain_postgres_world\<lparr>connected := True\<rparr>))) =
       [CreateExtension, CreateHypertable]
   \<and> logged (snd (initializeTimescaleDB (plain_postgres_world\<lparr>connected := True\<rparr>))) =
       [(WARN, ''TimescaleDB extension may already be enabled'',
           Some (Thrown ''extension timescaledb is not available'')),
        (WARN, ''Hypertable may already exist or TimescaleDB not available'',
           Some (Thrown ''extension timescaledb is not available''))]
   \<and> fst (initializeTimescaleDB
            (snd (initializeTimescaleDB (plain_postgres_world\<lparr>connected := True\<rparr>)))) = Inr ()
   \<and> connected (snd (initializeTimescaleDB
            (snd (initializeTimescaleDB (plain_postgres_world\<lparr>connected := True\<rparr>)))))"
  using C7_bootstrap_ordered_and_contained [of "plain_postgres_world\<lparr>connected := True\<rparr>"]
  by (simp add: Let_def plain_postgres_world_def timescale_world_def)

text \<open>
  Claim C8. \<open>onModuleInit\<close> throws if and only if \<^verbatim>\<open>$connect\<close> fails, and then
  it throws the error of \<^verbatim>\<open>$connect\<close>; whatever the store answers to the bootstrap
  statements, it returns normally when the connection is established.
  \<open>onModuleDestroy\<close> never throws, whether \<^verbatim>\<open>$disconnect\<close> fails or not.
\<close>

theorem C8_only_connect_failure_propagates:
  "(fst (onModuleInit w) = Inl e) = (connect_error w = Some e)
   \<and> (fst (onModuleInit w) = Inr ()) = (connect_error w = None)
   \<and> fst (onModuleDestroy w) = Inr ()"
  by (cases "connect_error w")
     (simp_all add: onModuleInit_run initializeTimescaleDB_result onModuleDestroy_result)

theorem C8_witness:
  "fst (onModuleInit plain_postgres_world) = Inr ()
   \<and> fst (onModuleInit database_down_world) = Inl (Thrown ''ECONNREFUSED'')
   \<and> fst (onModuleDestroy
            (timescale_world\<lparr>disconnect_error := Some (Thrown ''socket closed'')\<rparr>)) = Inr ()"
  using C8_only_connect_failure_propagates [of plain_postgres_world]
    C8_only_connect_failure_propagates [of database_down_world "Thrown ''ECONNREFUSED''"]
    C8_only_connect_failure_propagates
      [of "timescale_world\<lparr>disconnect_error := Some (Thrown ''socket closed'')\<rparr>"]
  by (simp add: plain_postgres_world_def database_down_world_def timescale_world_def)

text \<open>
  Claim C9. Whatever the store answers to the round-trip query, \<open>isHealthy\<close>
  returns a boolean and never throws: \<open>True\<close> when the query succeeds, \<open>False\<close>
  when it rejects with any error.
\<close>

theorem C9_isHealthy_total:
  "fst (isHealthy w) =
     Inr (case fst (queryRaw SelectOne w) of Inr _ \<Rightarrow> True | Inl _ \<Rightarrow> False)"
  by (simp add: isHealthy_def try_catch_def seq_def await_def queryRaw_def
      round_trip_def resolve_def Let_def split: option.splits)

text \<open>
  Claim C10. \<open>readiness\<close> reports a dependency true exactly when the response time
  its probe measured is strictly positive. The database entry is \<open>0 < t\<close> for the
  \<open>t\<close> that \<open>checkDatabase\<close> returned, so a round trip that succeeds
  (\<open>isHealthy\<close> returns \<open>True\<close>) within the same millisecond is reported false.
  The Redis entry is \<open>0 < tr\<close> for the \<open>tr\<close> that \<open>checkRedis\<close> returned,
  and \<open>checkRedis\<close> contacts no client: it sends nothing and changes nothing but
  the clock, its result is the difference of the two clock readings around a timer of
  five milliseconds, and it is the same whether a Redis server answers or not. Redis is
  therefore reported true exactly when the clock reads later after the timer than
  before it.
\<close>

theorem C10_ready_means_positive_responseTime:
  "(\<exists>t w1 tr d. checkDatabase this w = (Inr t, w1)
       \<and> fst (checkRedis w1) = Inr tr
       \<and> fst (readiness this w) = Inr d
       \<and> dependencies d = [(''database'', 0 < t), (''redis'', 0 < tr)])
   \<and> fst (checkRedis w) = Inr (timer_elapsed w 5)
   \<and> snd (checkRedis w) = w\<lparr>now := now w + timer_elapsed w 5\<rparr>
   \<and> fst (checkRedis (w\<lparr>redis_reachable := up\<rparr>)) = fst (checkRedis w)
   \<and> fst (isRedisHealthy w) = Inr (0 < timer_elapsed w 5)
   \<and> (prismaService_isHealthy this = isHealthy
        \<and> backend w (issued w) SelectOne = None
        \<and> latency w (issued w) SelectOne = 0
      \<longrightarrow> fst (isHealthy w) = Inr True
        \<and> fst (checkDatabase this w) = Inr 0
        \<and> (\<exists>d. fst (readiness this w) = Inr d
             \<and> ReadinessDto.status d = ''not-ready''
             \<and> map_of (dependencies d) ''database'' = Some False))"
proof -
  obtain t w1 where run: "checkDatabase this w = (Inr t, w1)"
    by (rule checkDatabase_cases)
  have zero: "t = 0"
    if "prismaService_isHealthy this = isHealthy"
      and "backend w (issued w) SelectOne = None"
      and "latency w (issued w) SelectOne = 0"
    using run that by (simp add: checkDatabase_run isHealthy_run)
  show ?thesis
    unfolding readiness_run [OF run]
    using zero by (auto simp: run checkRedis_run isRedisHealthy_run isHealthy_run)
qed

theorem C10_witness:
  "prismaService_isHealthy healthService = isHealthy
   \<and> backend instant_world (issued instant_world) SelectOne = None
   \<and> latency instant_world (issued instant_world) SelectOne = 0
   \<and> fst (isHealthy instant_world) = Inr True
   \<and> fst (checkDatabase healthService instant_world) = Inr 0
   \<and> fst (isRedisHealthy instant_world) = Inr True
   \<and> (\<exists>d. fst (readiness healthService instant_world) = Inr d
        \<and> ReadinessDto.status d = ''not-ready''
        \<and> map_of (dependencies d) ''database'' = Some False)"
  using C10_ready_means_positive_responseTime [of healthService instant_world]
  by (simp add: healthService_def instant_world_def timescale_world_def)

text \<open>
  As first stated, claim C10 has Redis reported true always. Where the wall clock is set
  back by ten milliseconds while the timer runs, \<open>checkRedis\<close> returns \<open>- 5\<close>
  and \<open>readiness\<close> reports Redis false, with the database reachable.
\<close>

theorem C10_redis_false_when_clock_steps_back:
  "fst (checkRedis stepped_back_world) = Inr (- 5)
   \<and> fst (isRedisHealthy stepped_back_world) = Inr False
   \<and> fst (readiness healthService stepped_back_world) =
       Inr \<lparr>ReadinessDto.status = ''not-ready'',
            timestamp = 1699999999998,
            dependencies = [(''database'', True), (''redis'', False)]\<rparr>"
  unfolding readiness_run [OF checkDatabase_stepped_back] checkRedis_run isRedisHealthy_run
  by (simp add: stepped_back_world_def timescale_world_def)

end
